theory Spec2Isabelle
  imports Main "HOL-Library.AList"
begin

section \<open>Values\<close>

text \<open>
  The client handles values produced by \<^verbatim>\<open>JSON.parse\<close> and values handed in by the caller.
  A JavaScript object is the association list of its own properties. Numbers are
  the integral ones; a fractional number behaves like any other non-zero number in
  every test of this program. The JavaScript value \<^verbatim>\<open>undefined\<close> is \<open>None\<close> of
  \<open>json option\<close>.
\<close>

datatype json =
    JNull
  | JBool bool
  | JNum int
  | JStr string
  | JArr "json list"
  | JObj "(string \<times> json) list"

text \<open>The three copies of the client in the repository: the TypeScript source, the
  CommonJS build and the ES5 bundle under \<^verbatim>\<open>dist\<close>.\<close>

datatype copy = TypeScript | CommonJS | ES5

datatype exn =
    TypeError
  | SyntaxError
  | HandlerError nat

text \<open>JavaScript truthiness, as used by \<^verbatim>\<open>if (x)\<close> and \<^verbatim>\<open>!x\<close>.\<close>

fun truthy :: "json option \<Rightarrow> bool" where
  "truthy None = False"
| "truthy (Some JNull) = False"
| "truthy (Some (JBool b)) = b"
| "truthy (Some (JNum n)) = (n \<noteq> 0)"
| "truthy (Some (JStr s)) = (s \<noteq> [])"
| "truthy (Some (JArr xs)) = True"
| "truthy (Some (JObj kvs)) = True"

text \<open>
  Property read \<^verbatim>\<open>data.k\<close>, for the keys this program reads (\<^verbatim>\<open>id\<close>, \<^verbatim>\<open>method\<close>,
  \<^verbatim>\<open>result\<close>, \<^verbatim>\<open>error\<close>, \<^verbatim>\<open>code\<close>): reading a property of \<^verbatim>\<open>null\<close> throws, an object
  yields its own property or \<^verbatim>\<open>undefined\<close>, and a boolean, number, string or array has
  none of these properties.
\<close>

fun getprop :: "json \<Rightarrow> string \<Rightarrow> exn + json option" where
  "getprop JNull k = Inl TypeError"
| "getprop (JObj kvs) k = Inr (map_of kvs k)"
| "getprop (JBool b) k = Inr None"
| "getprop (JNum n) k = Inr None"
| "getprop (JStr s) k = Inr None"
| "getprop (JArr xs) k = Inr None"

text \<open>
  The call \<^verbatim>\<open>data.hasOwnProperty(k)\<close>. The method is inherited from
  \<^verbatim>\<open>Object.prototype\<close>; an object with an own property named \<^verbatim>\<open>hasOwnProperty\<close>
  shadows it with a JSON value, which is not callable.
\<close>

fun hasOwnProperty :: "json \<Rightarrow> string \<Rightarrow> exn + bool" where
  "hasOwnProperty JNull k = Inl TypeError"
| "hasOwnProperty (JObj kvs) k =
     (if map_of kvs ''hasOwnProperty'' \<noteq> None then Inl TypeError
      else Inr (map_of kvs k \<noteq> None))"
| "hasOwnProperty (JBool b) k = Inr False"
| "hasOwnProperty (JNum n) k = Inr False"
| "hasOwnProperty (JStr s) k = Inr False"
| "hasOwnProperty (JArr xs) k = Inr False"

text \<open>Sequencing of computations that may throw.\<close>

definition bindE :: "exn + 'a \<Rightarrow> ('a \<Rightarrow> exn + 'b) \<Rightarrow> exn + 'b" where
  "bindE r f = (case r of Inl x \<Rightarrow> Inl x | Inr a \<Rightarrow> f a)"

section \<open>Message classifier\<close>

datatype category = Notification | Request | SuccessResponse | ErrorResponse

definition isNotification :: "json \<Rightarrow> exn + bool" where
  "isNotification data = bindE (getprop data ''id'') (\<lambda>i. Inr (\<not> truthy i))"

text \<open>\<^verbatim>\<open>isRequest\<close> returns \<^verbatim>\<open>data.method\<close> itself; its only use is as a condition.\<close>

definition isRequest :: "json \<Rightarrow> exn + bool" where
  "isRequest data = bindE (getprop data ''method'') (\<lambda>m. Inr (truthy m))"

fun isSuccessResponse :: "copy \<Rightarrow> json \<Rightarrow> exn + bool" where
  "isSuccessResponse TypeScript data = bindE (getprop data ''result'') (\<lambda>r. Inr (truthy r))"
| "isSuccessResponse CommonJS data = hasOwnProperty data ''result''"
| "isSuccessResponse ES5 data = hasOwnProperty data ''result''"

fun isErrorResponse :: "copy \<Rightarrow> json \<Rightarrow> exn + bool" where
  "isErrorResponse TypeScript data = bindE (getprop data ''error'') (\<lambda>r. Inr (truthy r))"
| "isErrorResponse CommonJS data = hasOwnProperty data ''error''"
| "isErrorResponse ES5 data = hasOwnProperty data ''error''"

text \<open>
  \<^verbatim>\<open>typeof (data === null || data === void 0 ? void 0 : data.code) !== 'undefined'\<close>;
  the function exists in the two builds only.
\<close>

fun isRpcError :: "json option \<Rightarrow> bool" where
  "isRpcError None = False"
| "isRpcError (Some JNull) = False"
| "isRpcError (Some (JObj kvs)) = (map_of kvs ''code'' \<noteq> None)"
| "isRpcError (Some (JBool b)) = False"
| "isRpcError (Some (JNum n)) = False"
| "isRpcError (Some (JStr s)) = False"
| "isRpcError (Some (JArr xs)) = False"

text \<open>The \<^verbatim>\<open>if / else if\<close> chain of the message handler; \<open>None\<close> when no branch is taken.\<close>

definition classify :: "copy \<Rightarrow> json \<Rightarrow> exn + category option" where
  "classify v data =
     bindE (isNotification data) (\<lambda>n. if n then Inr (Some Notification) else
     bindE (isRequest data) (\<lambda>r. if r then Inr (Some Request) else
     bindE (isSuccessResponse v data) (\<lambda>s. if s then Inr (Some SuccessResponse) else
     bindE (isErrorResponse v data) (\<lambda>e. if e then Inr (Some ErrorResponse) else
     Inr None))))"

section \<open>Outbound builder\<close>

definition RPC_VERSION :: string where
  "RPC_VERSION = ''2.0''"

text \<open>
  The builders take the value returned by \<^verbatim>\<open>this.idFn()\<close> as the argument \<open>ident\<close>.
  An assignment \<^verbatim>\<open>data.k = v\<close> is \<open>AList.update k v\<close>: a new key goes last.
\<close>

definition buildRequestBase :: "json \<Rightarrow> string \<Rightarrow> json option \<Rightarrow> (string \<times> json) list" where
  "buildRequestBase ident method params =
     (let data = [];
          data = AList.update ''id'' ident data;
          data = AList.update ''method'' (JStr method) data
      in case params of
           None \<Rightarrow> data
         | Some p \<Rightarrow> if truthy (Some p) then AList.update ''params'' p data else data)"

definition buildRequest :: "json \<Rightarrow> string \<Rightarrow> json option \<Rightarrow> (string \<times> json) list" where
  "buildRequest ident method params =
     (let data = buildRequestBase ident method params
      in AList.update ''jsonrpc'' (JStr RPC_VERSION) data)"

definition buildNotificationBase :: "string \<Rightarrow> json option \<Rightarrow> (string \<times> json) list" where
  "buildNotificationBase method params =
     (let data = [];
          data = AList.update ''method'' (JStr method) data
      in case params of
           None \<Rightarrow> data
         | Some p \<Rightarrow> if truthy (Some p) then AList.update ''params'' p data else data)"

definition buildNotification :: "string \<Rightarrow> json option \<Rightarrow> (string \<times> json) list" where
  "buildNotification method params =
     (let data = buildNotificationBase method params
      in AList.update ''jsonrpc'' (JStr RPC_VERSION) data)"

definition buildRpcSuccessResponseBase :: "json \<Rightarrow> json \<Rightarrow> (string \<times> json) list" where
  "buildRpcSuccessResponseBase ident result =
     (let data = [];
          data = AList.update ''id'' ident data
      in AList.update ''result'' result data)"

definition buildRpcSuccessResponse :: "json \<Rightarrow> json \<Rightarrow> (string \<times> json) list" where
  "buildRpcSuccessResponse ident result =
     (let data = buildRpcSuccessResponseBase ident result
      in AList.update ''jsonrpc'' (JStr RPC_VERSION) data)"

definition buildRpcErrorResponseBase :: "json \<Rightarrow> json \<Rightarrow> (string \<times> json) list" where
  "buildRpcErrorResponseBase ident err =
     (let data = [];
          data = AList.update ''id'' ident data
      in AList.update ''error'' err data)"

definition buildRpcErrorResponse :: "json \<Rightarrow> json \<Rightarrow> (string \<times> json) list" where
  "buildRpcErrorResponse ident err =
     (let data = buildRpcErrorResponseBase ident err
      in AList.update ''jsonrpc'' (JStr RPC_VERSION) data)"

section \<open>Session state\<close>

text \<open>
  What a subscriber receives: the raw message event (represented by what \<^verbatim>\<open>JSON.parse\<close>
  makes of its text, \<open>None\<close> when the text is not JSON), the decoded data, or a
  transport event.
\<close>

datatype event = MessageEvent "json option" | Data json | OpenEvent | ErrorEvent | CloseEvent

text \<open>
  A subscriber callback is known by a number and by the set of events on which it
  throws. Callbacks do not call back into the session.
\<close>

record handler =
  hid :: nat
  hthrows :: "event set"

datatype outcome = Resolved "json option" | Rejected "json option"

text \<open>
  The closure stored in \<^verbatim>\<open>idAwaiter\<close> by \<^verbatim>\<open>call\<close>: it captures the promise of the call
  (promises are numbered in the order of the calls), \<^verbatim>\<open>data.id\<close> and the variable
  \<^verbatim>\<open>timeout\<close>. The handle returned by \<^verbatim>\<open>setTimeout\<close> is the number of the promise whose
  executor armed the timer.
\<close>

record waiter =
  wpromise :: nat
  wid :: "json option"
  wtimeout :: "nat option"

text \<open>The closure passed to \<^verbatim>\<open>setTimeout\<close>, with the delay it was armed for.\<close>

record timer =
  tpromise :: nat
  tid :: "json option"
  tmethod :: string
  tdelay :: int

text \<open>\<^verbatim>\<open>noRpc\<close> replaces the four builder methods of the instance by their base versions.\<close>

datatype impl = Versioned | Base

text \<open>
  The fields of the class, followed by the part of the environment the client acts on:
  the message handler that was installed on the socket before \<^verbatim>\<open>listenMessages\<close>, the
  timers of the runtime that are armed, every call of a \<^verbatim>\<open>resolve\<close> or \<^verbatim>\<open>reject\<close> function
  of a \<^verbatim>\<open>call\<close> promise in order, the number of promises created by \<^verbatim>\<open>call\<close>, the
  objects passed to \<^verbatim>\<open>ws.send\<close> (before \<^verbatim>\<open>JSON.stringify\<close>), every invocation of a
  subscriber, and the settlements of the promise of \<^verbatim>\<open>connect\<close>. The socket is open and
  \<^verbatim>\<open>send\<close> does not throw. \<^verbatim>\<open>idAwaiter\<close> is the association list of its own
  properties (read with \<open>map_of\<close>, assigned with \<open>AList.update\<close>, deleted with
  \<open>AList.delete\<close>); keys that name a member of \<^verbatim>\<open>Object.prototype\<close> are not used as
  identifiers.
\<close>

record session =
  idAwaiter :: "(string \<times> waiter) list"
  onOpenHandlers :: "handler list"
  onAnyMessageHandlers :: "handler list"
  onNotification :: "handler list"
  onRequest :: "handler list"
  onSuccessResponse :: "handler list"
  onErrorResponse :: "handler list"
  onErrorHandlers :: "handler list"
  onCloseHandlers :: "handler list"
  responseTimeout :: "int option"
  buildRequestImpl :: impl
  buildNotificationImpl :: impl
  buildRpcSuccessResponseImpl :: impl
  buildRpcErrorResponseImpl :: impl
  previousOnMessage :: "handler option"
  timers :: "timer list"
  settled :: "(nat \<times> outcome) list"
  ncalls :: nat
  sent :: "json list"
  invoked :: "(nat \<times> event) list"
  connectSettled :: "bool list"

text \<open>The constructor.\<close>

definition RpcWebSocketClient :: session where
  "RpcWebSocketClient =
     \<lparr> idAwaiter = [],
       onOpenHandlers = [], onAnyMessageHandlers = [],
       onNotification = [], onRequest = [], onSuccessResponse = [], onErrorResponse = [],
       onErrorHandlers = [], onCloseHandlers = [],
       responseTimeout = Some 10000,
       buildRequestImpl = Versioned, buildNotificationImpl = Versioned,
       buildRpcSuccessResponseImpl = Versioned, buildRpcErrorResponseImpl = Versioned,
       previousOnMessage = None,
       timers = [], settled = [], ncalls = 0, sent = [], invoked = [], connectSettled = [] \<rparr>"

text \<open>The state of the promise of call \<open>p\<close>: the first settlement wins.\<close>

definition outcome_of :: "session \<Rightarrow> nat \<Rightarrow> outcome option" where
  "outcome_of s p = map_of (settled s) p"

definition resolve :: "nat \<Rightarrow> json option \<Rightarrow> session \<Rightarrow> session" where
  "resolve p x s = s\<lparr>settled := settled s @ [(p, Resolved x)]\<rparr>"

definition reject :: "nat \<Rightarrow> json option \<Rightarrow> session \<Rightarrow> session" where
  "reject p x s = s\<lparr>settled := settled s @ [(p, Rejected x)]\<rparr>"

definition setTimeout :: "timer \<Rightarrow> session \<Rightarrow> session" where
  "setTimeout t s = s\<lparr>timers := timers s @ [t]\<rparr>"

text \<open>\<^verbatim>\<open>clearInterval\<close> on the handle of a timeout cancels it; on \<^verbatim>\<open>undefined\<close> it does nothing.\<close>

definition clearInterval :: "nat option \<Rightarrow> session \<Rightarrow> session" where
  "clearInterval h s =
     (case h of
        None \<Rightarrow> s
      | Some n \<Rightarrow> s\<lparr>timers := filter (\<lambda>t. tpromise t \<noteq> n) (timers s)\<rparr>)"

definition send :: "json \<Rightarrow> session \<Rightarrow> session" where
  "send x s = s\<lparr>sent := sent s @ [x]\<rparr>"

section \<open>Setup operations\<close>

definition onOpen :: "handler \<Rightarrow> session \<Rightarrow> session" where
  "onOpen fn s = s\<lparr>onOpenHandlers := onOpenHandlers s @ [fn]\<rparr>"

definition onAnyMessage :: "handler \<Rightarrow> session \<Rightarrow> session" where
  "onAnyMessage fn s = s\<lparr>onAnyMessageHandlers := onAnyMessageHandlers s @ [fn]\<rparr>"

definition onError :: "handler \<Rightarrow> session \<Rightarrow> session" where
  "onError fn s = s\<lparr>onErrorHandlers := onErrorHandlers s @ [fn]\<rparr>"

definition onClose :: "handler \<Rightarrow> session \<Rightarrow> session" where
  "onClose fn s = s\<lparr>onCloseHandlers := onCloseHandlers s @ [fn]\<rparr>"

definition noRpc :: "session \<Rightarrow> session" where
  "noRpc s = s\<lparr> buildRequestImpl := Base, buildNotificationImpl := Base,
                buildRpcSuccessResponseImpl := Base, buildRpcErrorResponseImpl := Base \<rparr>"

text \<open>\<^verbatim>\<open>configure(options)\<close>; the argument is the value of \<^verbatim>\<open>options.responseTimeout\<close>.\<close>

definition configure :: "int option \<Rightarrow> session \<Rightarrow> session" where
  "configure options s = s\<lparr>responseTimeout := options\<rparr>"

text \<open>The builder methods as the instance sees them.\<close>

definition this_buildRequest :: "session \<Rightarrow> json \<Rightarrow> string \<Rightarrow> json option \<Rightarrow> (string \<times> json) list" where
  "this_buildRequest s =
     (case buildRequestImpl s of Versioned \<Rightarrow> buildRequest | Base \<Rightarrow> buildRequestBase)"

definition this_buildNotification :: "session \<Rightarrow> string \<Rightarrow> json option \<Rightarrow> (string \<times> json) list" where
  "this_buildNotification s =
     (case buildNotificationImpl s of Versioned \<Rightarrow> buildNotification | Base \<Rightarrow> buildNotificationBase)"

definition this_buildRpcSuccessResponse :: "session \<Rightarrow> json \<Rightarrow> json \<Rightarrow> (string \<times> json) list" where
  "this_buildRpcSuccessResponse s =
     (case buildRpcSuccessResponseImpl s of
        Versioned \<Rightarrow> buildRpcSuccessResponse | Base \<Rightarrow> buildRpcSuccessResponseBase)"

definition this_buildRpcErrorResponse :: "session \<Rightarrow> json \<Rightarrow> json \<Rightarrow> (string \<times> json) list" where
  "this_buildRpcErrorResponse s =
     (case buildRpcErrorResponseImpl s of
        Versioned \<Rightarrow> buildRpcErrorResponse | Base \<Rightarrow> buildRpcErrorResponseBase)"

section \<open>Communication\<close>

text \<open>
  \<open>K\<close> is the string conversion of the runtime (\<^verbatim>\<open>ToString\<close>), which turns a value into
  a property key and into the text spliced into a message. It is a parameter of the model.

  \<^verbatim>\<open>call(method, params)\<close>, where \<open>ident\<close> is what \<^verbatim>\<open>idFn\<close> returns in the builder.
\<close>

definition call :: "(json option \<Rightarrow> string) \<Rightarrow> json \<Rightarrow> string \<Rightarrow> json option \<Rightarrow> session \<Rightarrow> session" where
  "call K ident method params s =
     (let p = ncalls s;
          s = s\<lparr>ncalls := Suc p\<rparr>;
          data = this_buildRequest s ident method params;
          (timeout, s) =
            (case responseTimeout s of
               None \<Rightarrow> (None, s)
             | Some d \<Rightarrow>
                 if d \<noteq> 0
                 then (Some p, setTimeout \<lparr>tpromise = p, tid = map_of data ''id'',
                                            tmethod = method, tdelay = d\<rparr> s)
                 else (None, s));
          s = s\<lparr>idAwaiter :=
                 AList.update (K (map_of data ''id''))
                   \<lparr>wpromise = p, wid = map_of data ''id'', wtimeout = timeout\<rparr>
                   (idAwaiter s)\<rparr>
      in send (JObj data) s)"

definition notify :: "string \<Rightarrow> json option \<Rightarrow> session \<Rightarrow> session" where
  "notify method params s = send (JObj (this_buildNotification s method params)) s"

text \<open>The text of the timeout rejection in each copy.\<close>

fun timeout_message :: "copy \<Rightarrow> (json option \<Rightarrow> string) \<Rightarrow> string \<Rightarrow> json option \<Rightarrow> string" where
  "timeout_message TypeScript K method i =
     ''Awaiting response to: '' @ method @ '' with id: '' @ K i @ '' timed out.''"
| "timeout_message CommonJS K method i =
     ''Awaiting response to '' @ [CHR 0x22] @ method @ [CHR 0x22] @ '' with id: '' @ K i
       @ '' timed out.''"
| "timeout_message ES5 K method i =
     ''Awaiting response to '' @ [CHR 0x22] @ method @ [CHR 0x22] @ '' with id: '' @ K i
       @ '' timed out.''"

text \<open>The body of the timer closure.\<close>

definition timer_body :: "copy \<Rightarrow> (json option \<Rightarrow> string) \<Rightarrow> timer \<Rightarrow> session \<Rightarrow> session" where
  "timer_body v K t s =
     (let s = s\<lparr>idAwaiter := AList.delete (K (tid t)) (idAwaiter s)\<rparr>
      in reject (tpromise t) (Some (JStr (timeout_message v K (tmethod t) (tid t)))) s)"

text \<open>The runtime fires the armed timer with handle \<open>h\<close>, once; nothing happens when no
  such timer is armed.\<close>

definition fire :: "copy \<Rightarrow> (json option \<Rightarrow> string) \<Rightarrow> nat \<Rightarrow> session \<Rightarrow> session" where
  "fire v K h s =
     (case find (\<lambda>t. tpromise t = h) (timers s) of
        None \<Rightarrow> s
      | Some t \<Rightarrow> timer_body v K t (s\<lparr>timers := filter (\<lambda>t. tpromise t \<noteq> h) (timers s)\<rparr>))"

text \<open>The body of the closure stored in \<^verbatim>\<open>idAwaiter\<close>; the TypeScript source takes no
  argument and resolves with no value.\<close>

fun waiter_body :: "copy \<Rightarrow> (json option \<Rightarrow> string) \<Rightarrow> waiter \<Rightarrow> json option \<Rightarrow> session \<Rightarrow> session" where
  "waiter_body TypeScript K w responseData s =
     (let s = clearInterval (wtimeout w) s;
          s = s\<lparr>idAwaiter := AList.delete (K (wid w)) (idAwaiter s)\<rparr>
      in resolve (wpromise w) None s)"
| "waiter_body CommonJS K w responseData s =
     (let s = clearInterval (wtimeout w) s;
          s = s\<lparr>idAwaiter := AList.delete (K (wid w)) (idAwaiter s)\<rparr>
      in if isRpcError responseData then reject (wpromise w) responseData s
         else resolve (wpromise w) responseData s)"
| "waiter_body ES5 K w responseData s =
     (let s = clearInterval (wtimeout w) s;
          s = s\<lparr>idAwaiter := AList.delete (K (wid w)) (idAwaiter s)\<rparr>
      in if isRpcError responseData then reject (wpromise w) responseData s
         else resolve (wpromise w) responseData s)"

text \<open>\<^verbatim>\<open>this.idAwaiter[data.id](x)\<close>: calling \<^verbatim>\<open>undefined\<close> throws a \<^verbatim>\<open>TypeError\<close>.\<close>

definition invoke_awaiter ::
  "copy \<Rightarrow> (json option \<Rightarrow> string) \<Rightarrow> json option \<Rightarrow> json option \<Rightarrow> session \<Rightarrow> exn option \<times> session" where
  "invoke_awaiter v K i x s =
     (case map_of (idAwaiter s) (K i) of
        None \<Rightarrow> (Some TypeError, s)
      | Some w \<Rightarrow> (None, waiter_body v K w x s))"

section \<open>Event dispatch\<close>

text \<open>A statement that threw ends the routine; the state reached so far stays.\<close>

definition andThen ::
  "exn option \<times> session \<Rightarrow> (session \<Rightarrow> exn option \<times> session) \<Rightarrow> exn option \<times> session" where
  "andThen r f = (case r of (None, s) \<Rightarrow> f s | (Some x, s) \<Rightarrow> (Some x, s))"

text \<open>The loop \<^verbatim>\<open>for (const handler of handlers) handler(e)\<close>.\<close>

fun fanout :: "handler list \<Rightarrow> event \<Rightarrow> session \<Rightarrow> exn option \<times> session" where
  "fanout [] e s = (None, s)"
| "fanout (h # hs) e s =
     (let s = s\<lparr>invoked := invoked s @ [(hid h, e)]\<rparr>
      in if e \<in> hthrows h then (Some (HandlerError (hid h)), s) else fanout hs e s)"

text \<open>A property of data that is known not to be \<^verbatim>\<open>null\<close>.\<close>

definition field :: "json \<Rightarrow> string \<Rightarrow> json option" where
  "field data k = (case getprop data k of Inl x \<Rightarrow> None | Inr y \<Rightarrow> y)"

text \<open>What a copy passes to the waiter.\<close>

fun waiter_arg :: "copy \<Rightarrow> json option \<Rightarrow> json option" where
  "waiter_arg TypeScript x = None"
| "waiter_arg CommonJS x = x"
| "waiter_arg ES5 x = x"

text \<open>The handler installed on the socket by \<^verbatim>\<open>listenMessages\<close>, applied to an event whose
  text parses to \<open>d\<close>.\<close>

definition onmessage :: "copy \<Rightarrow> (json option \<Rightarrow> string) \<Rightarrow> json option \<Rightarrow> session \<Rightarrow> exn option \<times> session" where
  "onmessage v K d s =
     andThen (case previousOnMessage s of
                None \<Rightarrow> (None, s)
              | Some h \<Rightarrow> fanout [h] (MessageEvent d) s) (\<lambda>s.
     andThen (fanout (onAnyMessageHandlers s) (MessageEvent d) s) (\<lambda>s.
     case d of
       None \<Rightarrow> (Some SyntaxError, s)
     | Some data \<Rightarrow>
        (case classify v data of
           Inl x \<Rightarrow> (Some x, s)
         | Inr None \<Rightarrow> (None, s)
         | Inr (Some Notification) \<Rightarrow> fanout (onNotification s) (Data data) s
         | Inr (Some Request) \<Rightarrow> fanout (onRequest s) (Data data) s
         | Inr (Some SuccessResponse) \<Rightarrow>
             andThen (fanout (onSuccessResponse s) (Data data) s)
               (invoke_awaiter v K (field data ''id'') (waiter_arg v (field data ''result'')))
         | Inr (Some ErrorResponse) \<Rightarrow>
             andThen (fanout (onErrorResponse s) (Data data) s)
               (invoke_awaiter v K (field data ''id'') (waiter_arg v (field data ''error''))))))"

definition onopen :: "session \<Rightarrow> exn option \<times> session" where
  "onopen s =
     andThen (fanout (onOpenHandlers s) OpenEvent s)
       (\<lambda>s. (None, s\<lparr>connectSettled := connectSettled s @ [True]\<rparr>))"

definition onerror :: "session \<Rightarrow> exn option \<times> session" where
  "onerror s = fanout (onErrorHandlers s) ErrorEvent s"

definition onclose :: "session \<Rightarrow> exn option \<times> session" where
  "onclose s =
     andThen (fanout (onCloseHandlers s) CloseEvent s)
       (\<lambda>s. (None, s\<lparr>connectSettled := connectSettled s @ [False]\<rparr>))"

section \<open>Runs\<close>

text \<open>
  What can happen to a session: a public operation, or an event of the socket or of the
  timer queue. An exception leaves through the event loop; the session goes on.
  \<^verbatim>\<open>connect\<close>, \<^verbatim>\<open>changeSocket\<close> and \<^verbatim>\<open>listenMessages\<close> are taken as done: the socket is
  attached and the message handler installed once. \<^verbatim>\<open>customId\<close> replaces the generator, whose
  results are the identifiers given to \<open>Call\<close>; any sequence of identifiers is possible,
  repetitions included.
\<close>

datatype op =
    Call json string "json option"
  | Notify string "json option"
  | Configure "int option"
  | NoRpc
  | OnOpen handler
  | OnAnyMessage handler
  | OnError handler
  | OnClose handler
  | Message "json option"
  | Fire nat
  | Open
  | Error
  | Close

fun exec :: "copy \<Rightarrow> (json option \<Rightarrow> string) \<Rightarrow> op \<Rightarrow> session \<Rightarrow> exn option \<times> session" where
  "exec v K (Call ident method params) s = (None, call K ident method params s)"
| "exec v K (Notify method params) s = (None, notify method params s)"
| "exec v K (Configure options) s = (None, configure options s)"
| "exec v K NoRpc s = (None, noRpc s)"
| "exec v K (OnOpen fn) s = (None, onOpen fn s)"
| "exec v K (OnAnyMessage fn) s = (None, onAnyMessage fn s)"
| "exec v K (OnError fn) s = (None, onError fn s)"
| "exec v K (OnClose fn) s = (None, onClose fn s)"
| "exec v K (Message d) s = onmessage v K d s"
| "exec v K (Fire h) s = (None, fire v K h s)"
| "exec v K Open s = onopen s"
| "exec v K Error s = onerror s"
| "exec v K Close s = onclose s"

fun run :: "copy \<Rightarrow> (json option \<Rightarrow> string) \<Rightarrow> op list \<Rightarrow> session \<Rightarrow> session" where
  "run v K [] s = s"
| "run v K (x # xs) s = run v K xs (snd (exec v K x s))"

section \<open>Notions used in the statements\<close>

text \<open>
  The consistency of the pending-call table with the timer queue and the promises: keys,
  waiters and timers are not duplicated; a waiter is stored under the key of the
  identifier it captured; a registered waiter and an armed timer belong to a promise that
  exists and on which neither \<^verbatim>\<open>resolve\<close> nor \<^verbatim>\<open>reject\<close> has been called; a waiter cancels
  no timer but that of its own promise; the timer of a promise captured the identifier of
  its waiter and is the one the waiter cancels; no promise has been settled twice.
\<close>

definition pending_inv :: "(json option \<Rightarrow> string) \<Rightarrow> session \<Rightarrow> bool" where
  "pending_inv K s \<longleftrightarrow>
     distinct (map fst (idAwaiter s)) \<and>
     distinct (map (\<lambda>kw. wpromise (snd kw)) (idAwaiter s)) \<and>
     distinct (map tpromise (timers s)) \<and>
     distinct (map fst (settled s)) \<and>
     (\<forall>kw \<in> set (idAwaiter s).
        fst kw = K (wid (snd kw)) \<and> wpromise (snd kw) < ncalls s \<and>
        wpromise (snd kw) \<notin> fst ` set (settled s) \<and>
        (wtimeout (snd kw) = None \<or> wtimeout (snd kw) = Some (wpromise (snd kw)))) \<and>
     (\<forall>t \<in> set (timers s). tpromise t < ncalls s \<and> tpromise t \<notin> fst ` set (settled s)) \<and>
     (\<forall>kw \<in> set (idAwaiter s). \<forall>t \<in> set (timers s).
        tpromise t = wpromise (snd kw) \<longrightarrow>
          K (tid t) = fst kw \<and> wtimeout (snd kw) = Some (tpromise t)) \<and>
     (\<forall>po \<in> set (settled s). fst po < ncalls s)"

text \<open>The test \<^verbatim>\<open>if (this.config.responseTimeout)\<close> of \<^verbatim>\<open>call\<close>.\<close>

definition timeout_enabled :: "session \<Rightarrow> bool" where
  "timeout_enabled s \<longleftrightarrow> (case responseTimeout s of None \<Rightarrow> False | Some d \<Rightarrow> d \<noteq> 0)"

text \<open>The settlement that the waiter of a copy makes when it is given \<open>x\<close>.\<close>

fun waiter_outcome :: "copy \<Rightarrow> json option \<Rightarrow> outcome" where
  "waiter_outcome TypeScript x = Resolved None"
| "waiter_outcome CommonJS x = (if isRpcError x then Rejected x else Resolved x)"
| "waiter_outcome ES5 x = (if isRpcError x then Rejected x else Resolved x)"


text \<open>The callbacks of a list up to and including the first one that throws on \<open>e\<close>.\<close>

definition reached :: "handler list \<Rightarrow> event \<Rightarrow> handler list" where
  "reached hs e = takeWhile (\<lambda>h. e \<notin> hthrows h) hs @ take 1 (dropWhile (\<lambda>h. e \<notin> hthrows h) hs)"


text \<open>Inbound data on which the tests of the TypeScript source and of the builds cannot
  differ: no own \<^verbatim>\<open>hasOwnProperty\<close>, and \<^verbatim>\<open>result\<close> and \<^verbatim>\<open>error\<close> truthy when present.\<close>

fun plain :: "json \<Rightarrow> bool" where
  "plain (JObj kvs) \<longleftrightarrow>
     map_of kvs ''hasOwnProperty'' = None \<and>
     (map_of kvs ''result'' = None \<or> truthy (map_of kvs ''result'')) \<and>
     (map_of kvs ''error'' = None \<or> truthy (map_of kvs ''error''))"
| "plain JNull \<longleftrightarrow> True"
| "plain (JBool b) \<longleftrightarrow> True"
| "plain (JNum n) \<longleftrightarrow> True"
| "plain (JStr s) \<longleftrightarrow> True"
| "plain (JArr xs) \<longleftrightarrow> True"

fun plain_op :: "op \<Rightarrow> bool" where
  "plain_op (Message (Some data)) = plain data"
| "plain_op (Message None) = True"
| "plain_op (Call ident method params) = True"
| "plain_op (Notify method params) = True"
| "plain_op (Configure options) = True"
| "plain_op NoRpc = True"
| "plain_op (OnOpen fn) = True"
| "plain_op (OnAnyMessage fn) = True"
| "plain_op (OnError fn) = True"
| "plain_op (OnClose fn) = True"
| "plain_op (Fire h) = True"
| "plain_op Open = True"
| "plain_op Error = True"
| "plain_op Close = True"

text \<open>A rejection by the timer closure carries a string; a waiter of the builds rejects
  with an object only.\<close>

fun by_timeout :: "outcome \<Rightarrow> bool" where
  "by_timeout (Rejected (Some (JStr m))) = True"
| "by_timeout (Rejected (Some JNull)) = False"
| "by_timeout (Rejected (Some (JBool b))) = False"
| "by_timeout (Rejected (Some (JNum n))) = False"
| "by_timeout (Rejected (Some (JArr xs))) = False"
| "by_timeout (Rejected (Some (JObj kvs))) = False"
| "by_timeout (Rejected None) = False"
| "by_timeout (Resolved x) = False"

text \<open>How the settlements of the TypeScript source relate to those of a build: the same
  promise, both by the timer, or the source resolving with no value where the build's
  waiter resolves or rejects.\<close>

definition same_settlement :: "nat \<times> outcome \<Rightarrow> nat \<times> outcome \<Rightarrow> bool" where
  "same_settlement a b \<longleftrightarrow>
     fst a = fst b \<and>
     (if by_timeout (snd b) then by_timeout (snd a) else snd a = Resolved None)"

text \<open>A step of the TypeScript source, with the result \<open>r1\<close>, from a state whose
  settlements are \<open>l1\<close>, against the same step of a build, with the result \<open>r2\<close>, from
  that state with the settlements \<open>l2\<close> instead: the same exception or none, the same
  state but for the settlements, and new settlements that correspond.\<close>

definition follows ::
  "(nat \<times> outcome) list \<Rightarrow> (nat \<times> outcome) list \<Rightarrow>
   exn option \<times> session \<Rightarrow> exn option \<times> session \<Rightarrow> bool" where
  "follows l1 l2 r1 r2 \<longleftrightarrow>
     fst r1 = fst r2 \<and>
     (\<exists>n1 n2. settled (snd r1) = l1 @ n1 \<and> snd r2 = (snd r1)\<lparr>settled := l2 @ n2\<rparr> \<and>
        list_all2 same_settlement n1 n2)"

text \<open>A string conversion that is exact on strings, to run the model on string
  identifiers.\<close>

definition string_key :: "json option \<Rightarrow> string" where
  "string_key i = (case i of Some (JStr s) \<Rightarrow> s | _ \<Rightarrow> [])"





text \<open>The promise \<open>p\<close> of a call is pending, none of the waiters in the table is its
  waiter, and none of the armed timers is its timer.\<close>

definition orphaned :: "nat \<Rightarrow> session \<Rightarrow> bool" where
  "orphaned p s \<longleftrightarrow>
     p < ncalls s \<and> p \<notin> fst ` set (settled s) \<and>
     p \<notin> tpromise ` set (timers s) \<and>
     p \<notin> (\<lambda>kw. wpromise (snd kw)) ` set (idAwaiter s)"

text \<open>An outgoing envelope with the version tag, and one without a \<^verbatim>\<open>jsonrpc\<close> key.\<close>

fun tagged :: "json \<Rightarrow> bool" where
  "tagged (JObj kvs) \<longleftrightarrow> map_of kvs ''jsonrpc'' = Some (JStr ''2.0'')"
| "tagged JNull \<longleftrightarrow> False"
| "tagged (JBool b) \<longleftrightarrow> False"
| "tagged (JNum n) \<longleftrightarrow> False"
| "tagged (JStr s) \<longleftrightarrow> False"
| "tagged (JArr xs) \<longleftrightarrow> False"

fun untagged :: "json \<Rightarrow> bool" where
  "untagged (JObj kvs) \<longleftrightarrow> ''jsonrpc'' \<notin> fst ` set kvs"
| "untagged JNull \<longleftrightarrow> False"
| "untagged (JBool b) \<longleftrightarrow> False"
| "untagged (JNum n) \<longleftrightarrow> False"
| "untagged (JStr s) \<longleftrightarrow> False"
| "untagged (JArr xs) \<longleftrightarrow> False"

text \<open>The four builder methods of the instance are the base versions, or the versioned
  ones.\<close>

definition bare :: "session \<Rightarrow> bool" where
  "bare s \<longleftrightarrow> buildRequestImpl s = Base \<and> buildNotificationImpl s = Base \<and>
     buildRpcSuccessResponseImpl s = Base \<and> buildRpcErrorResponseImpl s = Base"

definition versioned :: "session \<Rightarrow> bool" where
  "versioned s \<longleftrightarrow> buildRequestImpl s = Versioned \<and> buildNotificationImpl s = Versioned \<and>
     buildRpcSuccessResponseImpl s = Versioned \<and> buildRpcErrorResponseImpl s = Versioned"

section \<open>Auxiliary lemmas\<close>

lemma classify_obj:
  "classify v (JObj kvs) =
     (if \<not> truthy (map_of kvs ''id'') then Inr (Some Notification)
      else if truthy (map_of kvs ''method'') then Inr (Some Request)
      else bindE (isSuccessResponse v (JObj kvs)) (\<lambda>s. if s then Inr (Some SuccessResponse) else
           bindE (isErrorResponse v (JObj kvs)) (\<lambda>e. if e then Inr (Some ErrorResponse) else Inr None)))"
  by (simp add: classify_def isNotification_def isRequest_def bindE_def)

lemma fanout_snd:
  "snd (fanout hs e s) = s\<lparr>invoked := invoked s @ map (\<lambda>h. (hid h, e)) (reached hs e)\<rparr>"
  by (induction hs arbitrary: s) (simp_all add: reached_def Let_def)

lemma fanout_fst:
  "fst (fanout hs e s) =
     (case dropWhile (\<lambda>h. e \<notin> hthrows h) hs of [] \<Rightarrow> None | h # _ \<Rightarrow> Some (HandlerError (hid h)))"
  by (induction hs arbitrary: s) (simp_all add: Let_def)


lemma build_id: "map_of (this_buildRequest s i m p) ''id'' = Some i"
  by (simp add: this_buildRequest_def buildRequest_def buildRequestBase_def update_conv' Let_def
      split: impl.splits option.splits)

lemma pending_inv_fields:
  "idAwaiter s' = idAwaiter s \<Longrightarrow> timers s' = timers s \<Longrightarrow> settled s' = settled s \<Longrightarrow>
   ncalls s' = ncalls s \<Longrightarrow> pending_inv K s' = pending_inv K s"
  by (simp add: pending_inv_def)

lemma call_idAwaiter:
  "idAwaiter (call K i m p s) =
     AList.update (K (Some i))
       \<lparr>wpromise = ncalls s, wid = Some i,
        wtimeout = (if timeout_enabled s then Some (ncalls s) else None)\<rparr>
       (idAwaiter s)"
  by (cases "responseTimeout s")
     (simp_all add: call_def Let_def build_id setTimeout_def send_def timeout_enabled_def)

lemma call_timers:
  "timers (call K i m p s) =
     (if timeout_enabled s
      then timers s @ [\<lparr>tpromise = ncalls s, tid = Some i, tmethod = m, tdelay = the (responseTimeout s)\<rparr>]
      else timers s)"
  by (cases "responseTimeout s")
     (simp_all add: call_def Let_def build_id setTimeout_def send_def timeout_enabled_def)

lemma call_settled: "settled (call K i m p s) = settled s"
  by (cases "responseTimeout s")
     (simp_all add: call_def Let_def build_id setTimeout_def send_def)

lemma call_ncalls: "ncalls (call K i m p s) = Suc (ncalls s)"
  by (cases "responseTimeout s")
     (simp_all add: call_def Let_def build_id setTimeout_def send_def)







lemma fire_none:
  "h \<notin> tpromise ` set (timers s) \<Longrightarrow> fire v K h s = s"
proof -
  assume "h \<notin> tpromise ` set (timers s)"
  then have "find (\<lambda>t. tpromise t = h) (timers s) = None"
    by (auto simp add: find_None_iff)
  then show ?thesis by (simp add: fire_def)
qed

lemma fire_some:
  assumes "h \<in> tpromise ` set (timers s)"
  obtains t where "t \<in> set (timers s)" "tpromise t = h"
    "find (\<lambda>t. tpromise t = h) (timers s) = Some t"
    "fire v K h s =
       s\<lparr>timers := filter (\<lambda>t. tpromise t \<noteq> h) (timers s),
         idAwaiter := AList.delete (K (tid t)) (idAwaiter s),
         settled := settled s @ [(h, Rejected (Some (JStr (timeout_message v K (tmethod t) (tid t)))))]\<rparr>"
proof -
  from assms have "find (\<lambda>t. tpromise t = h) (timers s) \<noteq> None"
    by (auto simp add: find_None_iff)
  then obtain t where f: "find (\<lambda>t. tpromise t = h) (timers s) = Some t" by blast
  then have "t \<in> set (timers s)" "tpromise t = h"
    by (auto simp add: find_Some_iff)
  moreover have "fire v K h s =
       s\<lparr>timers := filter (\<lambda>t. tpromise t \<noteq> h) (timers s),
         idAwaiter := AList.delete (K (tid t)) (idAwaiter s),
         settled := settled s @ [(h, Rejected (Some (JStr (timeout_message v K (tmethod t) (tid t)))))]\<rparr>"
    using f \<open>tpromise t = h\<close> by (simp add: fire_def timer_body_def reject_def Let_def)
  ultimately show thesis using f that by blast
qed







lemma fanout_eq:
  "fanout hs e s =
     (case dropWhile (\<lambda>h. e \<notin> hthrows h) hs of [] \<Rightarrow> None | h # _ \<Rightarrow> Some (HandlerError (hid h)),
      s\<lparr>invoked := invoked s @ map (\<lambda>h. (hid h, e)) (reached hs e)\<rparr>)"
  using fanout_fst[of hs e s] fanout_snd[of hs e s] by (simp add: prod_eq_iff)

lemma fanout_shape: "\<exists>l. snd (fanout hs e s) = s\<lparr>invoked := l\<rparr>"
  by (intro exI) (rule fanout_snd)

lemma andThen_shape:
  assumes "\<exists>l. snd r = s\<lparr>invoked := l\<rparr>"
    and "\<And>l. P (snd (f (s\<lparr>invoked := l\<rparr>)))"
    and "\<And>l. P (s\<lparr>invoked := l\<rparr>)"
  shows "P (snd (andThen r f))"
  using assms by (cases r; cases "fst r") (auto simp add: andThen_def)

lemma invoke_awaiter_shape:
  "snd (invoke_awaiter v K i x s) = s \<or>
   (\<exists>w. map_of (idAwaiter s) (K i) = Some w \<and> snd (invoke_awaiter v K i x s) = waiter_body v K w x s)"
  by (simp add: invoke_awaiter_def split: option.splits)

text \<open>What the message handler can do to the state: log invocations, and run one
  registered waiter.\<close>

lemma onmessage_shape:
  assumes quiet: "\<And>l. P (s\<lparr>invoked := l\<rparr>)"
    and woken: "\<And>l data w x. d = Some data \<Longrightarrow>
       map_of (idAwaiter s) (K (field data ''id'')) = Some w \<Longrightarrow>
       P (waiter_body v K w x (s\<lparr>invoked := l\<rparr>))"
  shows "P (snd (onmessage v K d s))"
  unfolding onmessage_def
proof (rule andThen_shape[where s = s and P = P])
  show "\<exists>l. snd (case previousOnMessage s of None \<Rightarrow> (None, s)
       | Some h \<Rightarrow> fanout [h] (MessageEvent d) s) = s\<lparr>invoked := l\<rparr>"
  proof (cases "previousOnMessage s")
    case None
    have "snd (None :: exn option, s) = s\<lparr>invoked := invoked s\<rparr>" by simp
    then have "\<exists>l. snd (None :: exn option, s) = s\<lparr>invoked := l\<rparr>" by (rule exI)
    then show ?thesis by (simp only: None option.case)
  next
    case (Some h)
    then show ?thesis using fanout_shape[of "[h]" "MessageEvent d" s] by (simp del: fanout.simps)
  qed
next
  fix l show "P (s\<lparr>invoked := l\<rparr>)" by (rule quiet)
next
  fix l
  let ?s1 = "s\<lparr>invoked := l\<rparr>"
  show "P (snd (andThen (fanout (onAnyMessageHandlers ?s1) (MessageEvent d) ?s1)
     (\<lambda>s. case d of None \<Rightarrow> (Some SyntaxError, s)
        | Some data \<Rightarrow>
           (case classify v data of
              Inl x \<Rightarrow> (Some x, s)
            | Inr None \<Rightarrow> (None, s)
            | Inr (Some Notification) \<Rightarrow> fanout (onNotification s) (Data data) s
            | Inr (Some Request) \<Rightarrow> fanout (onRequest s) (Data data) s
            | Inr (Some SuccessResponse) \<Rightarrow>
                andThen (fanout (onSuccessResponse s) (Data data) s)
                  (invoke_awaiter v K (field data ''id'') (waiter_arg v (field data ''result'')))
            | Inr (Some ErrorResponse) \<Rightarrow>
                andThen (fanout (onErrorResponse s) (Data data) s)
                  (invoke_awaiter v K (field data ''id'') (waiter_arg v (field data ''error'')))))))"
  proof (rule andThen_shape[where s = s and P = P])
    show "\<exists>la. snd (fanout (onAnyMessageHandlers ?s1) (MessageEvent d) ?s1) = s\<lparr>invoked := la\<rparr>"
      using fanout_shape[of "onAnyMessageHandlers ?s1" "MessageEvent d" ?s1] by simp
  next
    fix l show "P (s\<lparr>invoked := l\<rparr>)" by (rule quiet)
  next
    fix l2
    let ?s2 = "s\<lparr>invoked := l2\<rparr>"
    have resp: "P (snd (andThen (fanout hs (Data data) ?s2) (invoke_awaiter v K (field data ''id'') x)))"
      if "d = Some data" for hs data x
    proof (rule andThen_shape[where s = s and P = P])
      show "\<exists>l. snd (fanout hs (Data data) ?s2) = s\<lparr>invoked := l\<rparr>"
        using fanout_shape[of hs "Data data" ?s2] by simp
    next
      fix l show "P (s\<lparr>invoked := l\<rparr>)" by (rule quiet)
    next
      fix l3
      show "P (snd (invoke_awaiter v K (field data ''id'') x (s\<lparr>invoked := l3\<rparr>)))"
        using invoke_awaiter_shape[of v K "field data ''id''" x "s\<lparr>invoked := l3\<rparr>"]
          quiet[of l3] woken[where l = l3 and x = x, OF that] by auto
    qed
    show "P (snd (case d of None \<Rightarrow> (Some SyntaxError, ?s2)
        | Some data \<Rightarrow>
           (case classify v data of
              Inl x \<Rightarrow> (Some x, ?s2)
            | Inr None \<Rightarrow> (None, ?s2)
            | Inr (Some Notification) \<Rightarrow> fanout (onNotification ?s2) (Data data) ?s2
            | Inr (Some Request) \<Rightarrow> fanout (onRequest ?s2) (Data data) ?s2
            | Inr (Some SuccessResponse) \<Rightarrow>
                andThen (fanout (onSuccessResponse ?s2) (Data data) ?s2)
                  (invoke_awaiter v K (field data ''id'') (waiter_arg v (field data ''result'')))
            | Inr (Some ErrorResponse) \<Rightarrow>
                andThen (fanout (onErrorResponse ?s2) (Data data) ?s2)
                  (invoke_awaiter v K (field data ''id'') (waiter_arg v (field data ''error''))))))"
    proof (cases d)
      case None
      then show ?thesis using quiet[of l2] by simp
    next
      case (Some data)
      note r = resp[OF Some]
      show ?thesis
      proof (cases "classify v data")
        case (Inl x)
        then show ?thesis using Some quiet[of l2] by simp
      next
        case (Inr c)
        show ?thesis
        proof (cases c)
          case None
          then show ?thesis using Some Inr quiet[of l2] by simp
        next
          case (Some cat)
          have fo: "P (snd (fanout hs (Data data) ?s2))" for hs
            using fanout_shape[of hs "Data data" ?s2] quiet by auto
          show ?thesis
            using \<open>d = Some data\<close> Inr Some fo r by (cases cat) simp_all
        qed
      qed
    qed
  qed
qed






lemma waiter_body_eq:
  "waiter_body v K w x s =
     s\<lparr>timers := (case wtimeout w of None \<Rightarrow> timers s
                   | Some n \<Rightarrow> filter (\<lambda>t. tpromise t \<noteq> n) (timers s)),
       idAwaiter := AList.delete (K (wid w)) (idAwaiter s),
       settled := settled s @ [(wpromise w, waiter_outcome v x)]\<rparr>"
  by (cases v; cases "wtimeout w")
     (simp_all add: Let_def clearInterval_def resolve_def reject_def)

text \<open>The fields that only the setup operations, \<^verbatim>\<open>call\<close> and \<^verbatim>\<open>notify\<close> write.\<close>

lemma onmessage_frame:
  "buildRequestImpl (snd (onmessage v K d s)) = buildRequestImpl s \<and>
   buildNotificationImpl (snd (onmessage v K d s)) = buildNotificationImpl s \<and>
   buildRpcSuccessResponseImpl (snd (onmessage v K d s)) = buildRpcSuccessResponseImpl s \<and>
   buildRpcErrorResponseImpl (snd (onmessage v K d s)) = buildRpcErrorResponseImpl s \<and>
   sent (snd (onmessage v K d s)) = sent s \<and>
   responseTimeout (snd (onmessage v K d s)) = responseTimeout s \<and>
   ncalls (snd (onmessage v K d s)) = ncalls s"
  by (rule onmessage_shape) (simp_all add: waiter_body_eq)

lemma fire_frame:
  "buildRequestImpl (fire v K h s) = buildRequestImpl s \<and>
   buildNotificationImpl (fire v K h s) = buildNotificationImpl s \<and>
   buildRpcSuccessResponseImpl (fire v K h s) = buildRpcSuccessResponseImpl s \<and>
   buildRpcErrorResponseImpl (fire v K h s) = buildRpcErrorResponseImpl s \<and>
   sent (fire v K h s) = sent s \<and>
   responseTimeout (fire v K h s) = responseTimeout s \<and>
   ncalls (fire v K h s) = ncalls s"
proof (cases "h \<in> tpromise ` set (timers s)")
  case False
  then show ?thesis by (simp add: fire_none)
next
  case True
  then show ?thesis by (rule fire_some[where v = v and K = K]) simp
qed

lemma transport_frame:
  assumes "r = onopen s \<or> r = onerror s \<or> r = onclose s"
  shows "buildRequestImpl (snd r) = buildRequestImpl s \<and>
   buildNotificationImpl (snd r) = buildNotificationImpl s \<and>
   buildRpcSuccessResponseImpl (snd r) = buildRpcSuccessResponseImpl s \<and>
   buildRpcErrorResponseImpl (snd r) = buildRpcErrorResponseImpl s \<and>
   sent (snd r) = sent s \<and>
   responseTimeout (snd r) = responseTimeout s \<and>
   ncalls (snd r) = ncalls s \<and> idAwaiter (snd r) = idAwaiter s \<and> timers (snd r) = timers s
   \<and> settled (snd r) = settled s"
  using assms
  by (auto simp add: onopen_def onerror_def onclose_def andThen_def fanout_eq split: list.splits)

lemma exec_impls:
  "x \<noteq> NoRpc \<Longrightarrow>
   buildRequestImpl (snd (exec v K x s)) = buildRequestImpl s \<and>
   buildNotificationImpl (snd (exec v K x s)) = buildNotificationImpl s \<and>
   buildRpcSuccessResponseImpl (snd (exec v K x s)) = buildRpcSuccessResponseImpl s \<and>
   buildRpcErrorResponseImpl (snd (exec v K x s)) = buildRpcErrorResponseImpl s"
proof (cases x)
  case (Call i m p)
  then show ?thesis
    by (cases "responseTimeout s") (simp_all add: call_def Let_def setTimeout_def send_def)
next
  case (Message d) then show ?thesis using onmessage_frame[of v K d s] by simp
next
  case (Fire h) then show ?thesis using fire_frame[of v K h s] by simp
next
  case Open then show ?thesis using transport_frame[of "onopen s" s] by simp
next
  case Error then show ?thesis using transport_frame[of "onerror s" s] by simp
next
  case Close then show ?thesis using transport_frame[of "onclose s" s] by simp
qed (simp_all add: notify_def send_def configure_def onOpen_def onAnyMessage_def onError_def onClose_def)

lemma exec_sent:
  "sent (snd (exec v K x s)) = sent s @
     (case x of Call i m p \<Rightarrow> [JObj (this_buildRequest s i m p)]
      | Notify m p \<Rightarrow> [JObj (this_buildNotification s m p)]
      | _ \<Rightarrow> [])"
proof (cases x)
  case (Call i m p)
  then show ?thesis
    by (cases "responseTimeout s")
       (simp_all add: call_def Let_def setTimeout_def send_def this_buildRequest_def)
next
  case (Message d) then show ?thesis using onmessage_frame[of v K d s] by simp
next
  case (Fire h) then show ?thesis using fire_frame[of v K h s] by simp
next
  case Open then show ?thesis using transport_frame[of "onopen s" s] by simp
next
  case Error then show ?thesis using transport_frame[of "onerror s" s] by simp
next
  case Close then show ?thesis using transport_frame[of "onclose s" s] by simp
qed (simp_all add: notify_def send_def configure_def noRpc_def onOpen_def onAnyMessage_def
      onError_def onClose_def)

text \<open>Case analysis on what an operation does to the table, the timers and the promises.\<close>

lemma exec_cases:
  assumes same: "\<And>s'. idAwaiter s' = idAwaiter s \<Longrightarrow> timers s' = timers s \<Longrightarrow>
       settled s' = settled s \<Longrightarrow> ncalls s' = ncalls s \<Longrightarrow> P s'"
    and called: "\<And>i m p. x = Call i m p \<Longrightarrow> P (call K i m p s)"
    and fired: "\<And>h. x = Fire h \<Longrightarrow> P (fire v K h s)"
    and woken: "\<And>data w y l. x = Message (Some data) \<Longrightarrow>
       map_of (idAwaiter s) (K (field data ''id'')) = Some w \<Longrightarrow>
       P (waiter_body v K w y (s\<lparr>invoked := l\<rparr>))"
  shows "P (snd (exec v K x s))"
proof (cases x)
  case (Call i m p) then show ?thesis using called by simp
next
  case (Fire h) then show ?thesis using fired by simp
next
  case (Message d)
  have "P (snd (onmessage v K d s))"
  proof (rule onmessage_shape)
    fix l show "P (s\<lparr>invoked := l\<rparr>)" by (rule same) simp_all
  next
    fix l data w y
    assume "d = Some data" "map_of (idAwaiter s) (K (field data ''id'')) = Some w"
    then show "P (waiter_body v K w y (s\<lparr>invoked := l\<rparr>))" using woken Message by simp
  qed
  then show ?thesis using Message by simp
next
  case Open then show ?thesis using transport_frame[of "onopen s" s] by (simp add: same)
next
  case Error then show ?thesis using transport_frame[of "onerror s" s] by (simp add: same)
next
  case Close then show ?thesis using transport_frame[of "onclose s" s] by (simp add: same)
qed (simp_all add: same notify_def send_def configure_def noRpc_def onOpen_def onAnyMessage_def
      onError_def onClose_def)

section \<open>The message classifier\<close>

text \<open>
  C2, as amended. For every JSON object that reaches the message handler, the copy
  being \<open>v\<close>, the classifier yields at most one category, tested in the order
  Notification, Request, SuccessResponse, ErrorResponse. For an object whose \<^verbatim>\<open>id\<close> is
  absent or truthy (and, in the two builds, without an own \<^verbatim>\<open>hasOwnProperty\<close> field; in
  the TypeScript source, with \<^verbatim>\<open>result\<close> and \<^verbatim>\<open>error\<close> truthy when present): no \<^verbatim>\<open>id\<close>
  gives Notification; otherwise a truthy \<^verbatim>\<open>method\<close> gives Request, never Notification;
  otherwise a \<^verbatim>\<open>result\<close> field gives SuccessResponse, whatever other fields are present;
  otherwise an \<^verbatim>\<open>error\<close> field gives ErrorResponse; otherwise the object gets no category
  and is dropped.
\<close>

theorem classify_priority:
  assumes "map_of kvs ''id'' = None \<or> truthy (map_of kvs ''id'')"
    and "v \<noteq> TypeScript \<longrightarrow> map_of kvs ''hasOwnProperty'' = None"
    and "v = TypeScript \<longrightarrow>
           (map_of kvs ''result'' = None \<or> truthy (map_of kvs ''result'')) \<and>
           (map_of kvs ''error'' = None \<or> truthy (map_of kvs ''error''))"
  shows "classify v (JObj kvs) =
     Inr (if map_of kvs ''id'' = None then Some Notification
          else if truthy (map_of kvs ''method'') then Some Request
          else if map_of kvs ''result'' \<noteq> None then Some SuccessResponse
          else if map_of kvs ''error'' \<noteq> None then Some ErrorResponse
          else None)"
  using assms by (cases v) (auto simp add: classify_obj bindE_def)

theorem classify_priority_witness:
  "classify ES5 (JObj [(''id'', JStr ''a''), (''result'', JNum 0), (''extra'', JBool True)])
     = Inr (Some SuccessResponse)
   \<and> classify TypeScript (JObj [(''id'', JNum 7), (''method'', JStr ''sum''), (''result'', JNum 3)])
     = Inr (Some Request)"
  using classify_priority[of "[(''id'', JStr ''a''), (''result'', JNum 0), (''extra'', JBool True)]" ES5]
    classify_priority[of "[(''id'', JNum 7), (''method'', JStr ''sum''), (''result'', JNum 3)]" TypeScript]
  by simp

text \<open>
  C2 as stated fails: an object with an \<^verbatim>\<open>id\<close> and none of \<^verbatim>\<open>method\<close>, \<^verbatim>\<open>result\<close>,
  \<^verbatim>\<open>error\<close> gets no category, and an object with the \<^verbatim>\<open>id\<close> 0 and a method is a
  Notification.
\<close>

theorem classify_counterexample:
  "classify ES5 (JObj [(''id'', JNum 1)]) = Inr None
   \<and> classify TypeScript (JObj [(''id'', JNum 1)]) = Inr None
   \<and> classify ES5 (JObj [(''id'', JNum 0), (''method'', JStr ''m'')]) = Inr (Some Notification)"
  by (simp add: classify_obj bindE_def)

section \<open>The outbound builder\<close>

lemma base_keys:
  "fst ` set (buildRequestBase i m p) \<subseteq> {''id'', ''method'', ''params''}"
  "fst ` set (buildNotificationBase m p) \<subseteq> {''method'', ''params''}"
  "fst ` set (buildRpcSuccessResponseBase i r) = {''id'', ''result''}"
  "fst ` set (buildRpcErrorResponseBase i r) = {''id'', ''error''}"
  by (auto simp add: buildRequestBase_def buildNotificationBase_def
      buildRpcSuccessResponseBase_def buildRpcErrorResponseBase_def Let_def dom_update
      split: option.splits)

lemma request_fields:
  "map_of (this_buildRequest s i m p) ''method'' = Some (JStr m)"
  "map_of (this_buildRequest s i m p) ''params'' = (if truthy p then p else None)"
  by (auto simp add: this_buildRequest_def buildRequest_def buildRequestBase_def update_conv' Let_def
      split: impl.splits option.splits)

text \<open>
  C7, as amended. When no params are supplied, the request envelope that the session
  builds (with or without the version tag) has no \<^verbatim>\<open>params\<close> field. For every non-empty
  method string, every truthy identifier returned by the generator and every params value
  that is not supplied or truthy, the built envelope is classified as a Request by each
  copy, and its \<^verbatim>\<open>method\<close> and \<^verbatim>\<open>params\<close> are the inputs.
\<close>

theorem build_then_classify:
  "(params = None \<longrightarrow> ''params'' \<notin> fst ` set (this_buildRequest s ident method params)) \<and>
   (truthy (Some ident) \<and> method \<noteq> [] \<and> (params = None \<or> truthy params) \<longrightarrow>
      classify v (JObj (this_buildRequest s ident method params)) = Inr (Some Request) \<and>
      field (JObj (this_buildRequest s ident method params)) ''method'' = Some (JStr method) \<and>
      field (JObj (this_buildRequest s ident method params)) ''params'' = params)"
proof -
  have "map_of (this_buildRequest s ident method None) ''params'' = None"
    by (simp add: request_fields)
  then have "''params'' \<notin> fst ` set (this_buildRequest s ident method None)"
    by (simp add: map_of_eq_None_iff)
  then show ?thesis
    by (auto simp add: classify_obj build_id request_fields field_def)
qed

theorem build_then_classify_witness:
  "classify ES5 (JObj (this_buildRequest RpcWebSocketClient (JStr ''a'') ''sum'' (Some (JArr [JNum 1, JNum 2]))))
     = Inr (Some Request)
   \<and> field (JObj (this_buildRequest RpcWebSocketClient (JStr ''a'') ''sum'' (Some (JArr [JNum 1, JNum 2]))))
        ''params'' = Some (JArr [JNum 1, JNum 2])
   \<and> ''params'' \<notin> fst ` set (this_buildRequest (noRpc RpcWebSocketClient) (JStr ''a'') ''ping'' None)"
  using build_then_classify[of "Some (JArr [JNum 1, JNum 2])" RpcWebSocketClient "JStr ''a''" "''sum''" ES5]
    build_then_classify[of None "noRpc RpcWebSocketClient" "JStr ''a''" "''ping''" ES5]
  by simp

text \<open>
  C7 as stated fails: the params value 0 is left out of the envelope, and a request with
  the empty method string is not classified as a Request.
\<close>

theorem build_then_classify_counterexample:
  "map_of (buildRequest (JStr ''a'') ''setVolume'' (Some (JNum 0))) ''params'' = None
   \<and> classify ES5 (JObj (buildRequest (JStr ''a'') [] None)) = Inr None"
  by (simp add: classify_obj bindE_def buildRequest_def buildRequestBase_def RPC_VERSION_def)

lemma exec_bare: "bare s \<Longrightarrow> bare (snd (exec v K x s))"
  using exec_impls[of x v K s] by (cases "x = NoRpc") (simp_all add: bare_def noRpc_def)

lemma exec_versioned: "versioned s \<Longrightarrow> x \<noteq> NoRpc \<Longrightarrow> versioned (snd (exec v K x s))"
  using exec_impls[of x v K s] by (simp add: versioned_def)

lemma run_bare: "bare s \<Longrightarrow> bare (run v K ops s)"
  by (induction ops arbitrary: s) (simp_all add: exec_bare)

lemma run_versioned: "versioned s \<Longrightarrow> NoRpc \<notin> set ops \<Longrightarrow> versioned (run v K ops s)"
  by (induction ops arbitrary: s) (auto simp add: exec_versioned)

lemma bare_untagged:
  assumes "bare s"
  shows "untagged (JObj (this_buildRequest s i m p))"
    and "untagged (JObj (this_buildNotification s m p))"
    and "untagged (JObj (this_buildRpcSuccessResponse s i r))"
    and "untagged (JObj (this_buildRpcErrorResponse s i r))"
  using assms base_keys(1)[of i m p] base_keys(2)[of m p] base_keys(3)[of i r] base_keys(4)[of i r]
  by (auto simp add: bare_def this_buildRequest_def this_buildNotification_def
      this_buildRpcSuccessResponse_def this_buildRpcErrorResponse_def)

lemma versioned_tagged:
  assumes "versioned s"
  shows "tagged (JObj (this_buildRequest s i m p))"
    and "tagged (JObj (this_buildNotification s m p))"
    and "tagged (JObj (this_buildRpcSuccessResponse s i r))"
    and "tagged (JObj (this_buildRpcErrorResponse s i r))"
  using assms
  by (simp_all add: versioned_def this_buildRequest_def this_buildNotification_def
      this_buildRpcSuccessResponse_def this_buildRpcErrorResponse_def
      buildRequest_def buildNotification_def buildRpcSuccessResponse_def buildRpcErrorResponse_def
      update_conv' RPC_VERSION_def)

lemma exec_sent_bare:
  "bare s \<Longrightarrow> \<exists>new. sent (snd (exec v K x s)) = sent s @ new \<and> (\<forall>y \<in> set new. untagged y)"
  unfolding exec_sent using bare_untagged[of s] by (cases x) simp_all

lemma exec_sent_versioned:
  "versioned s \<Longrightarrow> \<exists>new. sent (snd (exec v K x s)) = sent s @ new \<and> (\<forall>y \<in> set new. tagged y)"
  unfolding exec_sent using versioned_tagged[of s] by (cases x) simp_all

lemma run_sent_bare:
  "bare s \<Longrightarrow> \<exists>new. sent (run v K ops s) = sent s @ new \<and> (\<forall>y \<in> set new. untagged y)"
proof (induction ops arbitrary: s)
  case Nil
  then show ?case by simp
next
  case (Cons x xs)
  from exec_sent_bare[OF Cons.prems, of v K x] obtain n1 where
    n1: "sent (snd (exec v K x s)) = sent s @ n1" "\<forall>y \<in> set n1. untagged y" by blast
  from Cons.IH[OF exec_bare[OF Cons.prems, of v K x]] obtain n2 where
    n2: "sent (run v K xs (snd (exec v K x s))) = sent (snd (exec v K x s)) @ n2"
      "\<forall>y \<in> set n2. untagged y" by blast
  have "sent (run v K (x # xs) s) = sent s @ (n1 @ n2)" using n1 n2 by simp
  moreover have "\<forall>y \<in> set (n1 @ n2). untagged y" using n1 n2 by auto
  ultimately show ?case by blast
qed

lemma run_sent_versioned:
  "versioned s \<Longrightarrow> NoRpc \<notin> set ops \<Longrightarrow>
   \<exists>new. sent (run v K ops s) = sent s @ new \<and> (\<forall>y \<in> set new. tagged y)"
proof (induction ops arbitrary: s)
  case Nil
  then show ?case by simp
next
  case (Cons x xs)
  from Cons.prems have x: "x \<noteq> NoRpc" and xs: "NoRpc \<notin> set xs" by auto
  from exec_sent_versioned[OF Cons.prems(1), of v K x] obtain n1 where
    n1: "sent (snd (exec v K x s)) = sent s @ n1" "\<forall>y \<in> set n1. tagged y" by blast
  from Cons.IH[OF exec_versioned[OF Cons.prems(1) x, of v K] xs] obtain n2 where
    n2: "sent (run v K xs (snd (exec v K x s))) = sent (snd (exec v K x s)) @ n2"
      "\<forall>y \<in> set n2. tagged y" by blast
  have "sent (run v K (x # xs) s) = sent s @ (n1 @ n2)" using n1 n2 by simp
  moreover have "\<forall>y \<in> set (n1 @ n2). tagged y" using n1 n2 by auto
  ultimately show ?case by blast
qed

text \<open>
  C8. After \<^verbatim>\<open>noRpc()\<close>, whatever happens to the session next, each of the four builders
  of the instance yields an envelope without a \<^verbatim>\<open>jsonrpc\<close> key, and so does every envelope
  passed to \<^verbatim>\<open>send\<close> from then on. On a session constructed and run without \<^verbatim>\<open>noRpc()\<close>,
  each builder yields an envelope whose \<^verbatim>\<open>jsonrpc\<close> is "2.0", and so is every envelope
  sent.
\<close>

theorem noRpc_envelopes:
  "(let s' = run v K ops (noRpc s) in
      untagged (JObj (this_buildRequest s' ident method params)) \<and>
      untagged (JObj (this_buildNotification s' method params)) \<and>
      untagged (JObj (this_buildRpcSuccessResponse s' ident result)) \<and>
      untagged (JObj (this_buildRpcErrorResponse s' ident err)) \<and>
      (\<forall>x \<in> set (drop (length (sent s)) (sent s')). untagged x)) \<and>
   (NoRpc \<notin> set ops \<longrightarrow>
     (let s' = run v K ops RpcWebSocketClient in
      tagged (JObj (this_buildRequest s' ident method params)) \<and>
      tagged (JObj (this_buildNotification s' method params)) \<and>
      tagged (JObj (this_buildRpcSuccessResponse s' ident result)) \<and>
      tagged (JObj (this_buildRpcErrorResponse s' ident err)) \<and>
      (\<forall>x \<in> set (sent s'). tagged x)))"
proof -
  have b0: "bare (noRpc s)" by (simp add: bare_def noRpc_def)
  have b: "bare (run v K ops (noRpc s))" using b0 by (rule run_bare)
  from run_sent_bare[OF b0, of v K ops] obtain new where
    "sent (run v K ops (noRpc s)) = sent (noRpc s) @ new" "\<forall>y \<in> set new. untagged y" by blast
  then have sb: "\<forall>x \<in> set (drop (length (sent s)) (sent (run v K ops (noRpc s)))). untagged x"
    by (simp add: noRpc_def)
  have v0: "versioned RpcWebSocketClient" by (simp add: versioned_def RpcWebSocketClient_def)
  have sv: "\<forall>x \<in> set (sent (run v K ops RpcWebSocketClient)). tagged x" if "NoRpc \<notin> set ops"
    using run_sent_versioned[OF v0 that, of v K] by (auto simp add: RpcWebSocketClient_def)
  show ?thesis
    using bare_untagged[OF b] sb sv versioned_tagged[OF run_versioned[OF v0, of ops v K]]
    by (simp add: Let_def)
qed

theorem noRpc_envelopes_witness:
  "list_all tagged (sent (run ES5 string_key [Call (JStr ''a'') ''sum'' None, Notify ''x'' None]
                            RpcWebSocketClient))
   \<and> list_all untagged
        (drop (length (sent RpcWebSocketClient))
           (sent (run ES5 string_key [Call (JStr ''a'') ''sum'' None, Notify ''x'' None]
                    (noRpc RpcWebSocketClient))))
   \<and> untagged (JObj (this_buildRpcErrorResponse
        (run ES5 string_key [Call (JStr ''a'') ''sum'' None, Notify ''x'' None]
           (noRpc RpcWebSocketClient)) (JStr ''b'') (JObj [(''code'', JNum 1)])))"
  using noRpc_envelopes[of ES5 string_key "[Call (JStr ''a'') ''sum'' None, Notify ''x'' None]"
      RpcWebSocketClient "JStr ''b''" "''sum''" None "JNum 0" "JObj [(''code'', JNum 1)]"]
  by (simp add: Let_def list_all_iff)

section \<open>The event fan-out\<close>



section \<open>Responses without a waiter\<close>

text \<open>
  C3 fails on the code. A call is made with a response timeout of 50, its timer fires
  and removes the waiter, and the response arrives afterwards: the message handler calls
  \<^verbatim>\<open>this.idAwaiter[data.id]\<close>, which is \<^verbatim>\<open>undefined\<close>, and throws a \<^verbatim>\<open>TypeError\<close>. The session
  is left as it was.
\<close>

theorem late_response_throws:
  "exec ES5 string_key (Message (Some (JObj [(''id'', JStr ''x''), (''result'', JNum 3)])))
     (run ES5 string_key [Configure (Some 50), Call (JStr ''x'') ''sum'' None, Fire 0] RpcWebSocketClient)
   = (Some TypeError,
      run ES5 string_key [Configure (Some 50), Call (JStr ''x'') ''sum'' None, Fire 0] RpcWebSocketClient)"
  by (simp add: configure_def call_def fire_def timer_body_def reject_def setTimeout_def send_def
      onmessage_def andThen_def classify_obj bindE_def invoke_awaiter_def field_def string_key_def
      this_buildRequest_def buildRequest_def buildRequestBase_def RPC_VERSION_def
      RpcWebSocketClient_def Let_def)

section \<open>Responses with a waiter\<close>










section \<open>The pending-call table\<close>



lemma set_update: "x \<in> set (AList.update k v al) \<Longrightarrow> x = (k, v) \<or> x \<in> set al"
  by (induction al) (auto split: if_splits)

lemma set_delete: "x \<in> set (AList.delete k al) \<Longrightarrow> x \<in> set al"
  by (induction al) (auto split: if_splits)

text \<open>A call that is pending with neither a waiter in the table nor a timer armed stays so.\<close>

lemma exec_orphaned:
  assumes "orphaned p s"
  shows "orphaned p (snd (exec v K x s))"
proof -
  from assms have pn: "p < ncalls s" and un: "p \<notin> fst ` set (settled s)"
    and nt: "p \<notin> tpromise ` set (timers s)"
    and nw: "p \<notin> (\<lambda>kw. wpromise (snd kw)) ` set (idAwaiter s)"
    by (simp_all add: orphaned_def)
  show ?thesis
  proof (rule exec_cases)
    fix s' :: session assume "idAwaiter s' = idAwaiter s" "timers s' = timers s" "settled s' = settled s"
      "ncalls s' = ncalls s"
    then show "orphaned p s'" using assms by (simp add: orphaned_def)
  next
    fix i m q
    show "orphaned p (call K i m q s)"
      unfolding orphaned_def call_idAwaiter call_timers call_settled call_ncalls
      using pn un nt nw by (auto dest!: set_update)
  next
    fix h
    show "orphaned p (fire v K h s)"
    proof (cases "h \<in> tpromise ` set (timers s)")
      case False
      then show ?thesis using assms by (simp add: fire_none)
    next
      case True
      then have "h \<noteq> p" using nt by auto
      with True show ?thesis
        by (rule_tac fire_some[where v = v and K = K and h = h and s = s])
           (use pn un nt nw in \<open>auto simp add: orphaned_def dest!: set_delete\<close>)
    qed
  next
    fix data w y l
    assume "map_of (idAwaiter s) (K (field data ''id'')) = Some w"
    then have "(K (field data ''id''), w) \<in> set (idAwaiter s)" by (rule map_of_SomeD)
    then have "wpromise w \<noteq> p" using nw by force
    then show "orphaned p (waiter_body v K w y (s\<lparr>invoked := l\<rparr>))"
      using pn un nt nw
      by (auto simp add: orphaned_def waiter_body_eq dest!: set_delete split: option.splits)
  qed
qed

lemma run_orphaned: "orphaned p s \<Longrightarrow> outcome_of (run v K ops s) p = None"
proof (induction ops arbitrary: s)
  case Nil
  then show ?case by (simp add: orphaned_def outcome_of_def map_of_eq_None_iff)
next
  case (Cons x xs)
  then show ?case by (simp add: exec_orphaned)
qed


section \<open>The timeout guard\<close>















section \<open>The three copies\<close>

lemma classify_builds: "classify CommonJS data = classify ES5 data"
  by (simp add: classify_def cong: if_cong)

lemma waiter_builds: "waiter_body CommonJS K w x s = waiter_body ES5 K w x s"
  by simp

lemma invoke_builds: "invoke_awaiter CommonJS K i x s = invoke_awaiter ES5 K i x s"
  by (simp add: invoke_awaiter_def split: option.splits)

lemma invoke_builds_fun: "invoke_awaiter CommonJS K i x = invoke_awaiter ES5 K i x"
  by (rule ext) (rule invoke_builds)

lemma onmessage_builds: "onmessage CommonJS K d s = onmessage ES5 K d s"
proof -
  have a: "waiter_arg CommonJS = waiter_arg ES5" by (rule ext) simp
  show ?thesis unfolding onmessage_def classify_builds invoke_builds_fun a ..
qed

lemma fire_builds: "fire CommonJS K h s = fire ES5 K h s"
  by (simp add: fire_def timer_body_def split: option.splits)

lemma exec_builds: "exec CommonJS K x s = exec ES5 K x s"
  by (cases x) (simp_all add: onmessage_builds fire_builds)

lemma run_builds: "run CommonJS K ops s = run ES5 K ops s"
  by (induction ops arbitrary: s) (simp_all add: exec_builds)

lemma classify_plain: "plain data \<Longrightarrow> classify TypeScript data = classify ES5 data"
  by (cases data) (auto simp add: classify_def isNotification_def isRequest_def bindE_def)

lemma rejected_object: "isRpcError x \<Longrightarrow> \<not> by_timeout (Rejected x)"
  by (cases x rule: isRpcError.cases) simp_all

lemma onmessage_rel:
  assumes c: "\<And>data. d = Some data \<Longrightarrow> classify v1 data = classify v2 data"
    and quiet: "\<And>e l. P (e, s\<lparr>invoked := l\<rparr>) (e, s\<lparr>settled := l2, invoked := l\<rparr>)"
    and woken: "\<And>l data w x1 x2. map_of (idAwaiter s) (K (field data ''id'')) = Some w \<Longrightarrow>
       P (None, waiter_body v1 K w x1 (s\<lparr>invoked := l\<rparr>))
         (None, waiter_body v2 K w x2 (s\<lparr>settled := l2, invoked := l\<rparr>))"
  shows "P (onmessage v1 K d s) (onmessage v2 K d (s\<lparr>settled := l2\<rparr>))"
proof (cases d)
  case None
  show ?thesis
    unfolding onmessage_def None
    by (auto simp add: andThen_def fanout_eq quiet split: option.splits list.splits)
next
  case (Some data)
  note c' = c[OF Some]
  show ?thesis
  proof (cases "classify v2 data")
    case (Inl x)
    show ?thesis
      unfolding onmessage_def Some
      by (auto simp add: c' Inl andThen_def fanout_eq quiet split: option.splits list.splits)
  next
    case (Inr co)
    show ?thesis
    proof (cases co)
      case None
      show ?thesis
        unfolding onmessage_def Some
        by (auto simp add: c' Inr None andThen_def fanout_eq quiet split: option.splits list.splits)
    next
      case (Some cat)
      show ?thesis
        unfolding onmessage_def \<open>d = Some data\<close>
        by (cases cat)
           (auto simp add: c' Inr Some andThen_def fanout_eq invoke_awaiter_def quiet woken
            split: option.splits list.splits)
    qed
  qed
qed


lemma followsI:
  "fst r1 = fst r2 \<Longrightarrow> settled (snd r1) = l1 @ n1 \<Longrightarrow> snd r2 = (snd r1)\<lparr>settled := l2 @ n2\<rparr> \<Longrightarrow>
   list_all2 same_settlement n1 n2 \<Longrightarrow> follows l1 l2 r1 r2"
  unfolding follows_def by blast

lemma follows_same:
  "fst r1 = fst r2 \<Longrightarrow> settled (snd r1) = l1 \<Longrightarrow> snd r2 = (snd r1)\<lparr>settled := l2\<rparr> \<Longrightarrow>
   follows l1 l2 r1 r2"
  by (rule followsI[where ?n1.0 = "[]" and ?n2.0 = "[]"]) simp_all

lemma fire_follows: "follows (settled s) l2 (None, fire TypeScript K h s) (None, fire ES5 K h (s\<lparr>settled := l2\<rparr>))"
proof (cases "h \<in> tpromise ` set (timers s)")
  case False
  then show ?thesis by (simp add: fire_none follows_same)
next
  case True
  then obtain t where t: "find (\<lambda>t. tpromise t = h) (timers s) = Some t" "tpromise t = h"
    by (rule fire_some[where v = ES5 and K = K])
  show ?thesis
    by (rule followsI[where
          ?n1.0 = "[(h, Rejected (Some (JStr (timeout_message TypeScript K (tmethod t) (tid t)))))]" and
          ?n2.0 = "[(h, Rejected (Some (JStr (timeout_message ES5 K (tmethod t) (tid t)))))]"])
       (simp_all add: fire_def timer_body_def reject_def t same_settlement_def)
qed

lemma exec_follows:
  assumes "plain_op x"
  shows "follows (settled s) l2 (exec TypeScript K x s) (exec ES5 K x (s\<lparr>settled := l2\<rparr>))"
proof (cases x)
  case (Message d)
  have "follows (settled s) l2 (onmessage TypeScript K d s) (onmessage ES5 K d (s\<lparr>settled := l2\<rparr>))"
  proof (rule onmessage_rel)
    fix data assume "d = Some data"
    then show "classify TypeScript data = classify ES5 data"
      using assms Message by (simp add: classify_plain)
  next
    fix e l
    show "follows (settled s) l2 (e, s\<lparr>invoked := l\<rparr>) (e, s\<lparr>settled := l2, invoked := l\<rparr>)"
      by (rule follows_same) simp_all
  next
    fix l data w x1 x2
    show "follows (settled s) l2 (None, waiter_body TypeScript K w x1 (s\<lparr>invoked := l\<rparr>))
         (None, waiter_body ES5 K w x2 (s\<lparr>settled := l2, invoked := l\<rparr>))"
      by (rule followsI[where ?n1.0 = "[(wpromise w, Resolved None)]" and
            ?n2.0 = "[(wpromise w, waiter_outcome ES5 x2)]"])
         (simp_all add: waiter_body_eq same_settlement_def rejected_object split: option.splits)
  qed
  then show ?thesis using Message by simp
next
  case (Fire h) then show ?thesis using fire_follows[of s l2 K h] by simp
next
  case (Call i m p)
  show ?thesis
    unfolding Call
    by (rule follows_same)
       (simp_all add: call_def Let_def setTimeout_def send_def this_buildRequest_def
        split: option.splits)
next
  case Open show ?thesis unfolding Open
    by (rule follows_same) (simp_all add: onopen_def andThen_def fanout_eq split: list.splits)
next
  case Error show ?thesis unfolding Error
    by (rule follows_same) (simp_all add: onerror_def fanout_eq)
next
  case Close show ?thesis unfolding Close
    by (rule follows_same) (simp_all add: onclose_def andThen_def fanout_eq split: list.splits)
next
  case (Notify m p) show ?thesis unfolding Notify
    by (rule follows_same) (simp_all add: notify_def send_def this_buildNotification_def)
next
  case (Configure c) show ?thesis unfolding Configure
    by (rule follows_same) (simp_all add: configure_def)
next
  case NoRpc show ?thesis unfolding NoRpc
    by (rule follows_same) (simp_all add: noRpc_def)
next
  case (OnOpen fn) show ?thesis unfolding OnOpen
    by (rule follows_same) (simp_all add: onOpen_def)
next
  case (OnAnyMessage fn) show ?thesis unfolding OnAnyMessage
    by (rule follows_same) (simp_all add: onAnyMessage_def)
next
  case (OnError fn) show ?thesis unfolding OnError
    by (rule follows_same) (simp_all add: onError_def)
next
  case (OnClose fn) show ?thesis unfolding OnClose
    by (rule follows_same) (simp_all add: onClose_def)
qed

lemma run_follows:
  "\<forall>x \<in> set ops. plain_op x \<Longrightarrow> list_all2 same_settlement (settled a) lb \<Longrightarrow>
   (run ES5 K ops (a\<lparr>settled := lb\<rparr>))\<lparr>settled := []\<rparr> = (run TypeScript K ops a)\<lparr>settled := []\<rparr> \<and>
   list_all2 same_settlement (settled (run TypeScript K ops a)) (settled (run ES5 K ops (a\<lparr>settled := lb\<rparr>)))"
proof (induction ops arbitrary: a lb)
  case Nil
  then show ?case by simp
next
  case (Cons x xs)
  from Cons.prems have px: "plain_op x" and pxs: "\<forall>x \<in> set xs. plain_op x" by auto
  let ?a1 = "snd (exec TypeScript K x a)"
  from exec_follows[OF px, of a lb K] obtain n1 n2 where
    s1: "settled ?a1 = settled a @ n1"
    and b1: "snd (exec ES5 K x (a\<lparr>settled := lb\<rparr>)) = ?a1\<lparr>settled := lb @ n2\<rparr>"
    and n: "list_all2 same_settlement n1 n2"
    unfolding follows_def by blast
  have "list_all2 same_settlement (settled ?a1) (lb @ n2)"
    unfolding s1 using Cons.prems(2) n by (rule list_all2_appendI)
  from Cons.IH[OF pxs this] show ?case by (simp add: b1)
qed

text \<open>
  C10, as amended. The CommonJS build and the ES5 bundle are the same logic: every
  operation and event has the same effect in both, and every inbound value the same
  category. The TypeScript source agrees with them on the category of every inbound value
  that is plain (no own \<^verbatim>\<open>hasOwnProperty\<close>; \<^verbatim>\<open>result\<close> and \<^verbatim>\<open>error\<close> truthy when present).
  Over every sequence of operations, timer firings and plain inbound frames, from a session
  on which no call is settled, the source and the builds reach the same state but for the
  values of the settlements: they settle the same calls in the same order, both by the
  timer or both by the waiter, and where the waiter of a build resolves with the result or
  rejects with the error, the source resolves with no value.
\<close>

theorem copies_agree:
  "exec CommonJS K x s = exec ES5 K x s \<and>
   classify CommonJS data = classify ES5 data \<and>
   (plain data \<longrightarrow> classify TypeScript data = classify ES5 data) \<and>
   (settled s = [] \<and> (\<forall>x \<in> set ops. plain_op x) \<longrightarrow>
      (run ES5 K ops s)\<lparr>settled := []\<rparr> = (run TypeScript K ops s)\<lparr>settled := []\<rparr> \<and>
      list_all2 same_settlement (settled (run TypeScript K ops s)) (settled (run ES5 K ops s)))"
proof -
  have "(run ES5 K ops s)\<lparr>settled := []\<rparr> = (run TypeScript K ops s)\<lparr>settled := []\<rparr> \<and>
      list_all2 same_settlement (settled (run TypeScript K ops s)) (settled (run ES5 K ops s))"
    if "settled s = []" "\<forall>x \<in> set ops. plain_op x"
  proof -
    have "s\<lparr>settled := []\<rparr> = s" using that(1) by simp
    moreover have "list_all2 same_settlement (settled s) []" using that(1) by simp
    ultimately show ?thesis using run_follows[OF that(2), of s "[]" K] by simp
  qed
  then show ?thesis
    by (simp add: exec_builds classify_builds classify_plain)
qed

theorem copies_agree_witness:
  "settled (run TypeScript string_key
      [Call (JStr ''x'') ''sum'' None,
       Message (Some (JObj [(''id'', JStr ''x''), (''result'', JNum 3)])),
       Call (JStr ''y'') ''sum'' None, Fire 1] RpcWebSocketClient)
     = [(0, Resolved None),
        (1, Rejected (Some (JStr ''Awaiting response to: sum with id: y timed out.'')))]
   \<and> list_all2 same_settlement
       [(0, Resolved None),
        (1, Rejected (Some (JStr ''Awaiting response to: sum with id: y timed out.'')))]
       (settled (run ES5 string_key
      [Call (JStr ''x'') ''sum'' None,
       Message (Some (JObj [(''id'', JStr ''x''), (''result'', JNum 3)])),
       Call (JStr ''y'') ''sum'' None, Fire 1] RpcWebSocketClient))"
  using copies_agree[where K = string_key and s = RpcWebSocketClient and ops =
      "[Call (JStr ''x'') ''sum'' None,
       Message (Some (JObj [(''id'', JStr ''x''), (''result'', JNum 3)])),
       Call (JStr ''y'') ''sum'' None, Fire 1]"
      and data = "JObj [(''id'', JStr ''x''), (''result'', JNum 3)]"]
  by (simp add: call_def fire_def timer_body_def reject_def resolve_def
      setTimeout_def send_def clearInterval_def
      onmessage_def andThen_def classify_obj bindE_def invoke_awaiter_def field_def string_key_def
      this_buildRequest_def buildRequest_def buildRequestBase_def RPC_VERSION_def
      RpcWebSocketClient_def Let_def)

text \<open>
  C10 as stated fails: the TypeScript source gives no category to a response whose result
  is 0, which the builds classify as a SuccessResponse; and it resolves a call with no
  value where the builds resolve with the result.
\<close>

theorem copies_agree_counterexample:
  "classify TypeScript (JObj [(''id'', JStr ''x''), (''result'', JNum 0)]) = Inr None
   \<and> classify ES5 (JObj [(''id'', JStr ''x''), (''result'', JNum 0)]) = Inr (Some SuccessResponse)
   \<and> settled (run TypeScript string_key
        [Call (JStr ''x'') ''sum'' None,
         Message (Some (JObj [(''id'', JStr ''x''), (''result'', JNum 3)]))] RpcWebSocketClient)
      = [(0, Resolved None)]
   \<and> settled (run ES5 string_key
        [Call (JStr ''x'') ''sum'' None,
         Message (Some (JObj [(''id'', JStr ''x''), (''result'', JNum 3)]))] RpcWebSocketClient)
      = [(0, Resolved (Some (JNum 3)))]"
  by (simp add: call_def reject_def resolve_def
      setTimeout_def send_def clearInterval_def
      onmessage_def andThen_def classify_obj bindE_def invoke_awaiter_def field_def string_key_def
      this_buildRequest_def buildRequest_def buildRequestBase_def RPC_VERSION_def
      RpcWebSocketClient_def Let_def)

end
